theory Spec2Isabelle
  imports Main
begin

section \<open>The slash-command handler of the music bot (src/bot.ts)\<close>

text \<open>
  The program is one event handler, \<^verbatim>\<open>client.on("interactionCreate", async ...)\<close>,
  over one shared table, \<^verbatim>\<open>subscriptions\<close>, that maps a guild id to the
  \<^verbatim>\<open>MusicSubscription\<close> of that guild. The handler is an \<^verbatim>\<open>async\<close> function: it
  runs without interruption from one \<^verbatim>\<open>await\<close> to the next, and at an \<^verbatim>\<open>await\<close>
  other handlers may run. The model follows that: a handler in progress is a
  \<open>Task\<close> (the await it is suspended at, with its local variables), \<open>step\<close> runs a task
  from one await to the next, \<open>interactionCreate\<close> runs one handler to its end with
  nothing in between, and \<open>exec\<close> interleaves several handlers.

  Subscriptions are objects: the table and the local variable \<^verbatim>\<open>subscription\<close> hold
  references, so the model has a store \<open>heap\<close> from references to objects.
  What the outside world answers (does the connection become ready in time, is the text a
  URL, what does the search find, can the track be built) is a parameter, \<open>Env\<close>.
\<close>

subsection \<open>Data\<close>

type_synonym Snowflake = string

type_synonym ref = nat

datatype VoiceConnectionStatus = Signalling | Connecting | Ready | Disconnected | Destroyed

datatype AudioPlayerStatus = Idle | Buffering | Playing | Paused

text \<open>
  A track carries a title and three callbacks. The callbacks are the closures of lines
  162-177 of bot.ts; all they capture is the interaction they answer to, so a track
  records that interaction as \<open>requester\<close>.
\<close>

record Track =
  title :: string
  url :: string
  requester :: nat

text \<open>
  The state of the audio player: there is a resource (here, the track it was made from)
  exactly when the player is not idle, as in the union type of the voice library that
  line 206 reads.
\<close>

datatype AudioPlayerState =
    IdleState
  | BufferingState Track
  | PlayingState Track
  | PausedState Track

fun status :: "AudioPlayerState \<Rightarrow> AudioPlayerStatus" where
  "status IdleState = Idle"
| "status (BufferingState t) = Buffering"
| "status (PlayingState t) = Playing"
| "status (PausedState t) = Paused"

record MusicSubscription =
  voiceConnection :: VoiceConnectionStatus
  audioPlayer :: AudioPlayerState
  queue :: "Track list"

record Interaction =
  ident :: nat
  isCommand :: bool
  guildId :: "Snowflake option"
  commandName :: string
  song :: string
  voiceChannel :: "Snowflake option"

text \<open>
  \<open>voiceChannel i\<close> is the channel of line 116: \<open>Some c\<close> when
  \<^verbatim>\<open>interaction.member instanceof GuildMember && interaction.member.voice.channel\<close>
  holds, \<open>None\<close> otherwise. \<open>song i\<close> is the value of the required option "song".
\<close>

record World =
  subscriptions :: "Snowflake \<rightharpoonup> ref"
  heap :: "ref \<Rightarrow> MusicSubscription"
  nextRef :: ref

datatype Callback = OnStart | OnFinish | OnError

text \<open>
  What a handler does to the outside, in the order it does it: the replies it sends, what
  it logs, the calls it makes to its collaborators, and the callbacks that are invoked.
  The boolean of a reply is its \<^verbatim>\<open>ephemeral\<close> flag.
\<close>

datatype Event =
    DeferReply nat
  | FollowUp nat string bool
  | Reply nat string bool
  | ConsoleWarn
  | JoinVoiceChannel Snowflake ref
  | EntersState ref VoiceConnectionStatus nat bool
  | Search string
  | TrackFrom string
  | Enqueue ref Track
  | Invoked Callback Track

record Env =
  becomesReady :: bool
  validateURL :: "string \<Rightarrow> bool"
  yts :: "string \<Rightarrow> string list option"
  trackFrom :: "string \<Rightarrow> string option"

text \<open>
  \<open>becomesReady\<close>: a connection that is not ready yet gets ready within the bound of the wait.
  \<open>validateURL\<close> is \<^verbatim>\<open>ytdl.validateURL\<close>. \<open>yts q\<close> is the list of the urls of the videos
  that the search for \<open>q\<close> finds, \<open>None\<close> when the search itself throws.
  \<open>trackFrom u\<close> is the title of the track that \<^verbatim>\<open>Track.from\<close> builds for \<open>u\<close>, \<open>None\<close>
  when it throws.
\<close>

subsection \<open>The callbacks of a track (bot.ts, lines 162-177)\<close>

definition onStart :: "Track \<Rightarrow> Event list" where
  "onStart t = [Invoked OnStart t, FollowUp (requester t) ''Now playing!'' True]"

definition onFinish :: "Track \<Rightarrow> Event list" where
  "onFinish t = [Invoked OnFinish t, FollowUp (requester t) ''Now finished!'' True]"

definition onError :: "Track \<Rightarrow> string \<Rightarrow> Event list" where
  "onError t msg =
     [Invoked OnError t, ConsoleWarn, FollowUp (requester t) (''Error: '' @ msg) True]"

subsection \<open>The subscription and the voice library\<close>

text \<open>
  The class MusicSubscription (\<^verbatim>\<open>music/subscription.ts\<close>) is not among the sources, and
  neither is the voice library whose connection and player it wraps. What bot.ts calls
  on them is modelled here from sections 4.2, 4.3 and 4.4 of the specification, one
  definition for each call.
\<close>

text \<open>Modelled from the spec: the constructor of MusicSubscription
  (\<^verbatim>\<open>music/subscription.ts\<close>, missing), around a connection that has just been asked to
  join (4.3: the state begins at Signalling); the engine is idle, the queue empty.\<close>

definition newSubscription :: MusicSubscription where
  "newSubscription = \<lparr>voiceConnection = Signalling, audioPlayer = IdleState, queue = []\<rparr>"

text \<open>Modelled from the spec: playing an item, which \<^verbatim>\<open>music/subscription.ts\<close>
  (missing) does. By 4.2 the item gets current, the engine goes to Playing, and the
  item's \<open>onStart\<close> is invoked once.\<close>

definition play :: "Track \<Rightarrow> MusicSubscription \<Rightarrow> MusicSubscription \<times> Event list" where
  "play t s = (s\<lparr>audioPlayer := PlayingState t\<rparr>, onStart t)"

text \<open>Modelled from the spec: the reaction of MusicSubscription
  (\<^verbatim>\<open>music/subscription.ts\<close>, missing) to the engine getting idle (4.4, transition 3):
  pop the front of the queue; if there is one, play it; otherwise stay idle.\<close>

definition onIdle :: "MusicSubscription \<Rightarrow> MusicSubscription \<times> Event list" where
  "onIdle s = (case queue s of [] \<Rightarrow> (s, []) | t # ts \<Rightarrow> play t (s\<lparr>queue := ts\<rparr>))"

text \<open>Modelled from the spec: \<^verbatim>\<open>MusicSubscription.enqueue\<close>
  (\<^verbatim>\<open>music/subscription.ts\<close>, missing). By 4.4, transition 2, it appends to the queue; if
  the engine is idle and the connection ready, it pops the front and plays it.\<close>

definition enqueue :: "Track \<Rightarrow> MusicSubscription \<Rightarrow> MusicSubscription \<times> Event list" where
  "enqueue t s =
     (let s1 = s\<lparr>queue := queue s @ [t]\<rparr>
      in if status (audioPlayer s1) = Idle \<and> voiceConnection s1 = Ready then onIdle s1
         else (s1, []))"

text \<open>Modelled from the spec: \<^verbatim>\<open>audioPlayer.stop()\<close> (the voice library and the
  listener of \<^verbatim>\<open>music/subscription.ts\<close>, missing). By 4.2 it forces the transition to
  Idle from any state that is not Idle, and that transition triggers the reaction above;
  on an idle engine there is no transition. The stopped item gets no callback (section 8).\<close>

definition stop :: "MusicSubscription \<Rightarrow> MusicSubscription \<times> Event list" where
  "stop s =
     (if status (audioPlayer s) = Idle then (s, [])
      else onIdle (s\<lparr>audioPlayer := IdleState\<rparr>))"

text \<open>Modelled from the spec: \<^verbatim>\<open>audioPlayer.pause()\<close> and \<^verbatim>\<open>audioPlayer.unpause()\<close>
  (the voice library, missing). By 4.2 they act from Playing and from Paused only, and do
  nothing otherwise.\<close>

definition pause :: "MusicSubscription \<Rightarrow> MusicSubscription" where
  "pause s = (case audioPlayer s of PlayingState t \<Rightarrow> s\<lparr>audioPlayer := PausedState t\<rparr> | _ \<Rightarrow> s)"

definition unpause :: "MusicSubscription \<Rightarrow> MusicSubscription" where
  "unpause s = (case audioPlayer s of PausedState t \<Rightarrow> s\<lparr>audioPlayer := PlayingState t\<rparr> | _ \<Rightarrow> s)"

text \<open>Modelled from the spec: the teardown of MusicSubscription when its connection is
  destroyed (the listener of \<^verbatim>\<open>music/subscription.ts\<close>, missing). By 4.4, transitions 5
  and 6, and by section 7, the contents of the queue are discarded and no callback of a
  discarded item is invoked. The engine and its current item are not mentioned there
  and stay as they are.\<close>

definition onDestroyed :: "MusicSubscription \<Rightarrow> MusicSubscription \<times> Event list" where
  "onDestroyed s = (s\<lparr>queue := []\<rparr>, [])"

text \<open>Modelled from the spec: \<^verbatim>\<open>voiceConnection.destroy()\<close> (the voice library and the
  listener of \<^verbatim>\<open>music/subscription.ts\<close>, missing). By 4.3 it moves the connection to
  Destroyed, whatever its state, and that triggers the teardown above. The leave branch
  of bot.ts (lines 235-236) calls nothing else on the subscription, so the discarding
  of the queue that 4.4 ascribes to leave happens in this call.\<close>

definition destroy :: "MusicSubscription \<Rightarrow> MusicSubscription \<times> Event list" where
  "destroy s = onDestroyed (s\<lparr>voiceConnection := Destroyed\<rparr>)"

text \<open>Modelled from the spec: \<^verbatim>\<open>entersState(connection, Ready, bound)\<close> (the voice
  library, missing), the \<open>awaitReady\<close> of 4.3. The wait succeeds at once on a ready
  connection; on another one it succeeds when the handshake completes within the bound,
  which leaves the connection ready; otherwise it fails and leaves the connection as it
  is. A destroyed connection never gets ready (section 3: Destroyed is terminal).\<close>

definition entersState :: "Env \<Rightarrow> MusicSubscription \<Rightarrow> MusicSubscription option" where
  "entersState env s =
     (if voiceConnection s = Ready then Some s
      else if voiceConnection s \<noteq> Destroyed \<and> becomesReady env
           then Some (s\<lparr>voiceConnection := Ready\<rparr>)
      else None)"

subsection \<open>The handler (bot.ts, lines 99-248)\<close>

text \<open>
  A task is a handler suspended at an await, with the local variables that the code after
  the await reads: the interaction, \<^verbatim>\<open>subscription\<close> and \<^verbatim>\<open>songinfo\<close>.
  \<open>Entry\<close> is the handler before its first line, \<open>Finished\<close> the handler that has returned.
  An await of a final reply has no code after it, so the task is finished there. The
  calls that send a reply are taken to succeed. The listener of line 124 only logs and is
  left out.
\<close>

datatype Task =
    Entry Interaction
  | AtDeferReply Interaction Snowflake "ref option"
  | AtEntersState Interaction ref string
  | AtSearch Interaction ref string
  | AtTrackFrom Interaction ref string
  | Finished

definition notPlaying :: "Interaction \<Rightarrow> World \<Rightarrow> Task \<times> World \<times> Event list" where
  "notPlaying i w = (Finished, w, [Reply (ident i) ''Not playing in this server!'' False])"

text \<open>Lines 189-198.\<close>

definition skipCommand :: "Interaction \<Rightarrow> ref option \<Rightarrow> World \<Rightarrow> Task \<times> World \<times> Event list" where
  "skipCommand i subscription w =
     (case subscription of
        Some r \<Rightarrow>
          (let (s', ev) = stop (heap w r)
           in (Finished, w\<lparr>heap := (heap w)(r := s')\<rparr>,
               ev @ [Reply (ident i) ''Skipped song!'' False]))
      | None \<Rightarrow> notPlaying i w)"

text \<open>Lines 199-218. \<open>showNat\<close> gives the decimal digits of a number, for
  \<^verbatim>\<open>${index + 1}\<close>; \<open>joinLines\<close> is the \<^verbatim>\<open>join\<close> of line 213, with a line feed between the lines. The
  player has a resource exactly when it is not idle, so the test of line 203 is the case
  distinction of \<open>current\<close>.\<close>

function showNat :: "nat \<Rightarrow> string" where
  "showNat n =
     (if n < 10 then [char_of (48 + n)]
      else showNat (n div 10) @ [char_of (48 + n mod 10)])"
  by pat_completeness auto
termination
  by (relation "measure id") auto

fun joinLines :: "string list \<Rightarrow> string" where
  "joinLines [] = []"
| "joinLines [l] = l"
| "joinLines (l # ls) = l @ [CHR 0x0A] @ joinLines ls"

definition current :: "AudioPlayerState \<Rightarrow> string" where
  "current p =
     (case p of
        IdleState \<Rightarrow> ''Nothing is currently playing!''
      | BufferingState t \<Rightarrow> ''Playing **'' @ title t @ ''**''
      | PlayingState t \<Rightarrow> ''Playing **'' @ title t @ ''**''
      | PausedState t \<Rightarrow> ''Playing **'' @ title t @ ''**'')"

definition queueLines :: "Track list \<Rightarrow> string list" where
  "queueLines q =
     map (\<lambda>(index, track). showNat (index + 1) @ '') '' @ title track)
         (zip [0 ..< length (take 5 q)] (take 5 q))"

definition queueCommand :: "Interaction \<Rightarrow> ref option \<Rightarrow> World \<Rightarrow> Task \<times> World \<times> Event list" where
  "queueCommand i subscription w =
     (case subscription of
        Some r \<Rightarrow>
          (Finished, w,
           [Reply (ident i)
              (current (audioPlayer (heap w r)) @ [CHR 0x0A, CHR 0x0A]
                 @ joinLines (queueLines (queue (heap w r)))) False])
      | None \<Rightarrow> notPlaying i w)"

text \<open>Lines 219-225.\<close>

definition pauseCommand :: "Interaction \<Rightarrow> ref option \<Rightarrow> World \<Rightarrow> Task \<times> World \<times> Event list" where
  "pauseCommand i subscription w =
     (case subscription of
        Some r \<Rightarrow>
          (Finished, w\<lparr>heap := (heap w)(r := pause (heap w r))\<rparr>,
           [Reply (ident i) ''Paused!'' True])
      | None \<Rightarrow> notPlaying i w)"

text \<open>Lines 226-232.\<close>

definition resumeCommand :: "Interaction \<Rightarrow> ref option \<Rightarrow> World \<Rightarrow> Task \<times> World \<times> Event list" where
  "resumeCommand i subscription w =
     (case subscription of
        Some r \<Rightarrow>
          (Finished, w\<lparr>heap := (heap w)(r := unpause (heap w r))\<rparr>,
           [Reply (ident i) ''Unpaused!'' True])
      | None \<Rightarrow> notPlaying i w)"

text \<open>Lines 233-240.\<close>

definition leaveCommand ::
  "Interaction \<Rightarrow> Snowflake \<Rightarrow> ref option \<Rightarrow> World \<Rightarrow> Task \<times> World \<times> Event list" where
  "leaveCommand i g subscription w =
     (case subscription of
        Some r \<Rightarrow>
          (let (s', ev) = destroy (heap w r)
           in (Finished,
               w\<lparr>heap := (heap w)(r := s'),
                 subscriptions := (subscriptions w)(g := None)\<rparr>,
               ev @ [Reply (ident i) ''Left channel!'' True]))
      | None \<Rightarrow> notPlaying i w)"

text \<open>Lines 100-104 and the dispatch of lines 189-247: from the start of the handler to
  its first await. \<^verbatim>\<open>!interaction.guildId\<close> holds for \<^verbatim>\<open>null\<close> and for the empty string.\<close>

definition entry :: "Interaction \<Rightarrow> World \<Rightarrow> Task \<times> World \<times> Event list" where
  "entry i w =
     (case guildId i of
        None \<Rightarrow> (Finished, w, [])
      | Some g \<Rightarrow>
          if \<not> isCommand i \<or> g = [] then (Finished, w, [])
          else
            (let subscription = subscriptions w g
             in if commandName i = ''play'' then
                  (AtDeferReply i g subscription, w, [DeferReply (ident i)])
                else if commandName i = ''skip'' then skipCommand i subscription w
                else if commandName i = ''queue'' then queueCommand i subscription w
                else if commandName i = ''pause'' then pauseCommand i subscription w
                else if commandName i = ''resume'' then resumeCommand i subscription w
                else if commandName i = ''leave'' then leaveCommand i g subscription w
                else if commandName i = ''minecraft'' then
                  (Finished, w, [Reply (ident i) ''mc'' False])
                else if commandName i = ''serverstatus'' then
                  (Finished, w, [Reply (ident i) ''status'' False])
                else (Finished, w, [Reply (ident i) ''Unknown command'' False])))"

text \<open>Lines 107-143: after \<^verbatim>\<open>deferReply\<close>, up to the wait for the connection.\<close>

definition afterDeferReply ::
  "Interaction \<Rightarrow> Snowflake \<Rightarrow> ref option \<Rightarrow> World \<Rightarrow> Task \<times> World \<times> Event list" where
  "afterDeferReply i g subscription w =
     (let songinfo = song i;
          (subscription1, w1, ev1) =
            (case subscription of
               None \<Rightarrow>
                 (case voiceChannel i of
                    Some channel \<Rightarrow>
                      (let r = nextRef w
                       in (Some r,
                           w\<lparr>heap := (heap w)(r := newSubscription),
                             nextRef := Suc r,
                             subscriptions := (subscriptions w)(g \<mapsto> r)\<rparr>,
                           [JoinVoiceChannel channel r]))
                  | None \<Rightarrow> (None, w, []))
             | Some r \<Rightarrow> (Some r, w, []))
      in case subscription1 of
           None \<Rightarrow>
             (Finished, w1,
              ev1 @ [FollowUp (ident i) ''Join a voice channel and then try that again!'' False])
         | Some r \<Rightarrow> (AtEntersState i r songinfo, w1, ev1))"

definition failedToPlay :: "Interaction \<Rightarrow> World \<Rightarrow> Task \<times> World \<times> Event list" where
  "failedToPlay i w =
     (Finished, w,
      [ConsoleWarn, FollowUp (ident i) ''Failed to play track, please try again later!'' False])"

text \<open>Lines 139-156 and 161: the outcome of the wait, then the start of the resolution.\<close>

definition afterEntersState ::
  "Env \<Rightarrow> Interaction \<Rightarrow> ref \<Rightarrow> string \<Rightarrow> World \<Rightarrow> Task \<times> World \<times> Event list" where
  "afterEntersState env i r songinfo w =
     (case entersState env (heap w r) of
        None \<Rightarrow>
          (Finished, w,
           [EntersState r Ready 20000 False, ConsoleWarn,
            FollowUp (ident i)
              ''Failed to join voice channel within 20 seconds, please try again later!'' False])
      | Some s \<Rightarrow>
          (let w1 = w\<lparr>heap := (heap w)(r := s)\<rparr>
           in if \<not> validateURL env songinfo then
                (AtSearch i r songinfo, w1, [EntersState r Ready 20000 True, Search songinfo])
              else
                (AtTrackFrom i r songinfo, w1,
                 [EntersState r Ready 20000 True, TrackFrom songinfo])))"

text \<open>Lines 156-161: the result of the search.\<close>

definition afterSearch ::
  "Env \<Rightarrow> Interaction \<Rightarrow> ref \<Rightarrow> string \<Rightarrow> World \<Rightarrow> Task \<times> World \<times> Event list" where
  "afterSearch env i r songinfo w =
     (case yts env songinfo of
        None \<Rightarrow> failedToPlay i w
      | Some [] \<Rightarrow> failedToPlay i w
      | Some (video # _) \<Rightarrow> (AtTrackFrom i r video, w, [TrackFrom video]))"

text \<open>Lines 161-188: the result of \<^verbatim>\<open>Track.from\<close>, the enqueueing and the reply.\<close>

definition afterTrackFrom ::
  "Env \<Rightarrow> Interaction \<Rightarrow> ref \<Rightarrow> string \<Rightarrow> World \<Rightarrow> Task \<times> World \<times> Event list" where
  "afterTrackFrom env i r songinfo w =
     (case trackFrom env songinfo of
        None \<Rightarrow> failedToPlay i w
      | Some ttl \<Rightarrow>
          (let track = \<lparr>title = ttl, url = songinfo, requester = ident i\<rparr>;
               (s', ev) = enqueue track (heap w r)
           in (Finished, w\<lparr>heap := (heap w)(r := s')\<rparr>,
               [Enqueue r track] @ ev
                 @ [FollowUp (ident i) (''Enqueued **'' @ ttl @ ''**'') False])))"

fun step :: "Env \<Rightarrow> Task \<Rightarrow> World \<Rightarrow> Task \<times> World \<times> Event list" where
  "step env (Entry i) w = entry i w"
| "step env (AtDeferReply i g subscription) w = afterDeferReply i g subscription w"
| "step env (AtEntersState i r songinfo) w = afterEntersState env i r songinfo w"
| "step env (AtSearch i r songinfo) w = afterSearch env i r songinfo w"
| "step env (AtTrackFrom i r songinfo) w = afterTrackFrom env i r songinfo w"
| "step env Finished w = (Finished, w, [])"

subsection \<open>One handler alone\<close>

text \<open>
  \<open>advance\<close> runs the task to its next await and appends what it did. A handler passes
  at most five awaits (deferReply, entersState, the search, Track.from, the last reply), so
  five steps run it to its end; \<open>handler_returns\<close> below proves that.
\<close>

definition advance :: "Env \<Rightarrow> Task \<times> World \<times> Event list \<Rightarrow> Task \<times> World \<times> Event list" where
  "advance env c =
     (case c of (t, w, tr) \<Rightarrow> (case step env t w of (t', w', ev) \<Rightarrow> (t', w', tr @ ev)))"

definition handler :: "Env \<Rightarrow> Interaction \<Rightarrow> World \<Rightarrow> Task \<times> World \<times> Event list" where
  "handler env i w =
     advance env (advance env (advance env (advance env (advance env (Entry i, w, [])))))"

definition interactionCreate :: "Env \<Rightarrow> Interaction \<Rightarrow> World \<Rightarrow> World \<times> Event list" where
  "interactionCreate env i w = snd (handler env i w)"

subsection \<open>Several handlers\<close>

text \<open>
  The event loop: an interaction arrives and its handler runs to its first await
  (\<open>Arrive\<close>), or a suspended handler is resumed and runs to its next await (\<open>Resume\<close>).
\<close>

record System =
  world :: World
  tasks :: "Task list"
  trace :: "Event list"

datatype Sched = Arrive Interaction | Resume nat

fun exec1 :: "Env \<Rightarrow> System \<Rightarrow> Sched \<Rightarrow> System" where
  "exec1 env sys (Arrive i) =
     (case step env (Entry i) (world sys) of
        (t, w, ev) \<Rightarrow> \<lparr>world = w, tasks = tasks sys @ [t], trace = trace sys @ ev\<rparr>)"
| "exec1 env sys (Resume k) =
     (if k < length (tasks sys) then
        (case step env (tasks sys ! k) (world sys) of
           (t, w, ev) \<Rightarrow> \<lparr>world = w, tasks = (tasks sys)[k := t], trace = trace sys @ ev\<rparr>)
      else sys)"

definition exec :: "Env \<Rightarrow> Sched list \<Rightarrow> System \<Rightarrow> System" where
  "exec env sched sys = foldl (exec1 env) sys sched"

definition emptyWorld :: World where
  "emptyWorld = \<lparr>subscriptions = Map.empty, heap = (\<lambda>r. newSubscription), nextRef = 0\<rparr>"

subsection \<open>Notions the properties are stated with\<close>

text \<open>How many awaits a task may still pass.\<close>

fun rank :: "Task \<Rightarrow> nat" where
  "rank (Entry i) = 5"
| "rank (AtDeferReply i g s) = 4"
| "rank (AtEntersState i r q) = 3"
| "rank (AtSearch i r q) = 2"
| "rank (AtTrackFrom i r q) = 1"
| "rank Finished = 0"

text \<open>The resource of the player, which line 206 reads when the player is not idle.\<close>

fun resource :: "AudioPlayerState \<Rightarrow> Track option" where
  "resource IdleState = None"
| "resource (BufferingState t) = Some t"
| "resource (PlayingState t) = Some t"
| "resource (PausedState t) = Some t"

text \<open>
  When the resolution of a request fails, read off lines 155-161: the text is a URL and
  \<^verbatim>\<open>Track.from\<close> throws on it; or it is not a URL and the search throws or finds no video;
  or \<^verbatim>\<open>Track.from\<close> throws on the first video found.
\<close>

definition resolutionFails :: "Env \<Rightarrow> string \<Rightarrow> bool" where
  "resolutionFails env q =
     (if validateURL env q then trackFrom env q = None
      else (case yts env q of
              None \<Rightarrow> True
            | Some [] \<Rightarrow> True
            | Some (video # _) \<Rightarrow> trackFrom env video = None))"

text \<open>
  A monitor for the order of the calls in a trace. It starts in \<open>Waiting\<close>; a wait for
  Ready with the bound of 20000 ms that succeeds on \<open>r\<close> moves it to \<open>Open r\<close>, any other
  outcome of a wait to \<open>Closed\<close>. Joining a channel and waiting are accepted in \<open>Waiting\<close>
  only, the search and \<^verbatim>\<open>Track.from\<close> in an \<open>Open\<close> state only, and enqueueing on \<open>r\<close> in
  \<open>Open r\<close> only.
\<close>

datatype Gate = Waiting | Open ref | Closed

fun gate :: "Gate \<Rightarrow> Event list \<Rightarrow> bool" where
  "gate s [] = True"
| "gate s (JoinVoiceChannel c r # es) = (s = Waiting \<and> gate s es)"
| "gate s (EntersState r st b ok # es) =
     (s = Waiting \<and> gate (if st = Ready \<and> b = 20000 \<and> ok then Open r else Closed) es)"
| "gate s (Search q # es) = ((\<exists>r. s = Open r) \<and> gate s es)"
| "gate s (TrackFrom u # es) = ((\<exists>r. s = Open r) \<and> gate s es)"
| "gate s (Enqueue r t # es) = (s = Open r \<and> gate s es)"
| "gate s (e # es) = gate s es"

subsection \<open>Sample data\<close>

definition sampleEnv :: Env where
  "sampleEnv =
     \<lparr>becomesReady = True,
      validateURL = (\<lambda>q. q = ''https://youtu.be/a''),
      yts = (\<lambda>q. if q = ''song a'' then Some [''https://youtu.be/a''] else Some []),
      trackFrom = (\<lambda>u. if u = ''https://youtu.be/a'' then Some ''Song A'' else None)\<rparr>"

definition slowEnv :: Env where
  "slowEnv = sampleEnv\<lparr>becomesReady := False\<rparr>"

definition command :: "string \<Rightarrow> string \<Rightarrow> Interaction" where
  "command name text =
     \<lparr>ident = 7, isCommand = True, guildId = Some ''guild'', commandName = name,
      song = text, voiceChannel = Some ''lounge''\<rparr>"

definition trackB :: Track where
  "trackB = \<lparr>title = ''Song B'', url = ''https://youtu.be/b'', requester = 3\<rparr>"

definition trackC :: Track where
  "trackC = \<lparr>title = ''Song C'', url = ''https://youtu.be/c'', requester = 4\<rparr>"

definition trackD :: Track where
  "trackD = \<lparr>title = ''Song D'', url = ''https://youtu.be/d'', requester = 5\<rparr>"

text \<open>A world with one session, of the guild \<open>''guild''\<close>: ready, playing B, with C and D
  waiting.\<close>

definition busyWorld :: World where
  "busyWorld =
     \<lparr>subscriptions = [''guild'' \<mapsto> 0],
      heap = (\<lambda>r. newSubscription)
        (0 := \<lparr>voiceConnection = Ready, audioPlayer = PlayingState trackB,
               queue = [trackC, trackD]\<rparr>),
      nextRef = 1\<rparr>"

text \<open>The same with seven tracks waiting, Song 1 to Song 7.\<close>

definition numbered :: "nat \<Rightarrow> Track" where
  "numbered n =
     \<lparr>title = ''Song '' @ showNat n, url = ''https://youtu.be/'' @ showNat n, requester = n\<rparr>"

definition crowdedWorld :: World where
  "crowdedWorld =
     busyWorld\<lparr>heap := (heap busyWorld)
       (0 := (heap busyWorld 0)\<lparr>queue := map numbered [1 ..< 8]\<rparr>)\<rparr>"

text \<open>The same, the connection disconnected.\<close>

definition stuckWorld :: World where
  "stuckWorld =
     busyWorld\<lparr>heap := (heap busyWorld)(0 := (heap busyWorld 0)\<lparr>voiceConnection := Disconnected\<rparr>)\<rparr>"

text \<open>Two requests to play in the same guild, which has no session, from two members
  who are in a voice channel; and the event loop before they arrive.\<close>

definition playA :: Interaction where
  "playA = (command ''play'' ''song a'')\<lparr>ident := 1\<rparr>"

definition playB :: Interaction where
  "playB = (command ''play'' ''song a'')\<lparr>ident := 2\<rparr>"

definition idle :: System where
  "idle = \<lparr>world = emptyWorld, tasks = [], trace = []\<rparr>"

section \<open>Properties\<close>

subsection \<open>The handler returns\<close>

lemma rank_entry: "rank (fst (entry i w)) \<le> 4"
  by (simp add: entry_def notPlaying_def skipCommand_def queueCommand_def pauseCommand_def
      resumeCommand_def leaveCommand_def Let_def split: option.splits prod.splits)

lemma rank_afterDeferReply: "rank (fst (afterDeferReply i g s w)) \<le> 3"
  by (simp add: afterDeferReply_def Let_def split: option.splits)

lemma rank_afterEntersState: "rank (fst (afterEntersState env i r q w)) \<le> 2"
  by (simp add: afterEntersState_def Let_def split: option.splits)

lemma rank_afterSearch: "rank (fst (afterSearch env i r q w)) \<le> 1"
  by (simp add: afterSearch_def failedToPlay_def split: option.splits list.splits)

lemma rank_afterTrackFrom: "rank (fst (afterTrackFrom env i r q w)) = 0"
  by (simp add: afterTrackFrom_def failedToPlay_def Let_def split: option.splits prod.splits)

lemma rank_step: "rank (fst (step env t w)) \<le> rank t - 1"
proof (cases t)
  case (Entry i)
  then show ?thesis using rank_entry [of i w] by simp
next
  case (AtDeferReply i g s)
  then show ?thesis using rank_afterDeferReply [of i g s w] by simp
next
  case (AtEntersState i r q)
  then show ?thesis using rank_afterEntersState [of env i r q w] by simp
next
  case (AtSearch i r q)
  then show ?thesis using rank_afterSearch [of env i r q w] by simp
next
  case (AtTrackFrom i r q)
  then show ?thesis using rank_afterTrackFrom [of env i r q w] by simp
next
  case Finished
  then show ?thesis by simp
qed

lemma rank_advance: "rank (fst (advance env c)) \<le> rank (fst c) - 1"
proof -
  obtain t w tr where c: "c = (t, w, tr)" by (cases c) auto
  obtain t' w' ev where s: "step env t w = (t', w', ev)" by (cases "step env t w") auto
  from rank_step [of env t w] s have "rank t' \<le> rank t - 1" by simp
  with c s show ?thesis by (simp add: advance_def)
qed

lemma rank_zero: "rank t = 0 \<Longrightarrow> t = Finished"
  by (cases t) simp_all

text \<open>Five steps run any handler to its end: \<open>interactionCreate\<close> is the whole handler.\<close>

lemma handler_returns: "fst (handler env i w) = Finished"
proof -
  let ?c0 = "(Entry i, w, []) :: Task \<times> World \<times> Event list"
  let ?c1 = "advance env ?c0"
  let ?c2 = "advance env ?c1"
  let ?c3 = "advance env ?c2"
  let ?c4 = "advance env ?c3"
  let ?c5 = "advance env ?c4"
  have "rank (fst ?c1) \<le> 4" using rank_advance [of env ?c0] by simp
  then have "rank (fst ?c2) \<le> 3" using rank_advance [of env ?c1] by simp
  then have "rank (fst ?c3) \<le> 2" using rank_advance [of env ?c2] by simp
  then have "rank (fst ?c4) \<le> 1" using rank_advance [of env ?c3] by simp
  then have "rank (fst ?c5) = 0" using rank_advance [of env ?c4] by simp
  then show ?thesis unfolding handler_def by (rule rank_zero)
qed

subsection \<open>Unfolding the handler\<close>

lemma advance_Finished: "advance env (Finished, w, tr) = (Finished, w, tr)"
  by (simp add: advance_def)

lemma advance_Entry: "advance env (Entry i, w, []) = entry i w"
  by (simp add: advance_def split: prod.splits)

lemma advance_AtDeferReply:
  "advance env (AtDeferReply i g s, w, tr) =
     (case afterDeferReply i g s w of (t', w', ev) \<Rightarrow> (t', w', tr @ ev))"
  by (simp add: advance_def)

lemma advance_AtEntersState:
  "advance env (AtEntersState i r q, w, tr) =
     (case afterEntersState env i r q w of (t', w', ev) \<Rightarrow> (t', w', tr @ ev))"
  by (simp add: advance_def)

lemma advance_AtSearch:
  "advance env (AtSearch i r q, w, tr) =
     (case afterSearch env i r q w of (t', w', ev) \<Rightarrow> (t', w', tr @ ev))"
  by (simp add: advance_def)

lemma advance_AtTrackFrom:
  "advance env (AtTrackFrom i r q, w, tr) =
     (case afterTrackFrom env i r q w of (t', w', ev) \<Rightarrow> (t', w', tr @ ev))"
  by (simp add: advance_def)

lemmas advance_simps = advance_Finished advance_AtDeferReply advance_AtEntersState
  advance_AtSearch advance_AtTrackFrom

lemma handler_play:
  "isCommand i \<Longrightarrow> guildId i = Some g \<Longrightarrow> g \<noteq> [] \<Longrightarrow> commandName i = ''play'' \<Longrightarrow>
   handler env i w =
     advance env (advance env (advance env
       (advance env (AtDeferReply i g (subscriptions w g), w, [DeferReply (ident i)]))))"
  by (simp add: handler_def advance_Entry entry_def)

lemmas play_defs = afterDeferReply_def afterEntersState_def afterSearch_def afterTrackFrom_def
  failedToPlay_def Let_def

lemmas sample_defs = sampleEnv_def slowEnv_def command_def trackB_def trackC_def trackD_def
  busyWorld_def stuckWorld_def emptyWorld_def newSubscription_def

lemmas eval_defs = interactionCreate_def handler_def advance_def entry_def play_defs sample_defs
  entersState_def enqueue_def onIdle_def play_def onStart_def

subsection \<open>C10: what is not a command of a guild is ignored\<close>

text \<open>
  C10. An interaction that is not a command, or that has no guild id, is ignored: the
  handler returns in its first step, sends nothing, and the world (the table and every
  subscription) is as before, whatever the world is.
\<close>

theorem non_command_ignored:
  "\<not> isCommand i \<or> guildId i = None \<Longrightarrow>
   interactionCreate env i w = (w, []) \<and> step env (Entry i) w = (Finished, w, [])"
  by (auto simp: interactionCreate_def handler_def advance_Entry advance_Finished entry_def
      split: option.splits)

theorem non_command_ignored_witness:
  "\<not> isCommand ((command ''leave'' [])\<lparr>isCommand := False\<rparr>)
   \<and> interactionCreate sampleEnv ((command ''leave'' [])\<lparr>isCommand := False\<rparr>) busyWorld
       = (busyWorld, [])
   \<and> guildId ((command ''play'' ''song a'')\<lparr>guildId := None\<rparr>) = None
   \<and> interactionCreate sampleEnv ((command ''play'' ''song a'')\<lparr>guildId := None\<rparr>) busyWorld
       = (busyWorld, [])"
  using non_command_ignored [of "(command ''leave'' [])\<lparr>isCommand := False\<rparr>" sampleEnv busyWorld]
    non_command_ignored [of "(command ''play'' ''song a'')\<lparr>guildId := None\<rparr>" sampleEnv busyWorld]
  by (simp add: command_def)

subsection \<open>C9: commands on a guild without a session\<close>

text \<open>
  C9. A skip, queue, pause, resume or leave command in a guild that has no subscription in
  the table is answered with "Not playing in this server!", and the world is as before.
\<close>

theorem no_session_not_playing:
  "isCommand i \<Longrightarrow> guildId i = Some g \<Longrightarrow> g \<noteq> [] \<Longrightarrow> subscriptions w g = None \<Longrightarrow>
   commandName i \<in> {''skip'', ''queue'', ''pause'', ''resume'', ''leave''} \<Longrightarrow>
   interactionCreate env i w = (w, [Reply (ident i) ''Not playing in this server!'' False])"
  by (auto simp: interactionCreate_def handler_def advance_Entry advance_Finished entry_def
      notPlaying_def skipCommand_def queueCommand_def pauseCommand_def
      resumeCommand_def leaveCommand_def)

theorem no_session_not_playing_witness:
  "isCommand (command ''leave'' []) \<and> guildId (command ''leave'' []) = Some ''guild''
   \<and> subscriptions emptyWorld ''guild'' = None
   \<and> interactionCreate sampleEnv (command ''leave'' []) emptyWorld
       = (emptyWorld, [Reply 7 ''Not playing in this server!'' False])"
  using no_session_not_playing [of "command ''leave'' []" "''guild''" emptyWorld sampleEnv]
  by (simp add: command_def emptyWorld_def)

subsection \<open>C6: a session is created only for a requester in a voice channel\<close>

text \<open>
  C6. A play command in a guild without a session: when the requester is in no voice
  channel, the world is as before and the requester is told to join one; when the
  requester is in a voice channel, a new subscription is constructed around a connection to
  that channel and put into the table under the guild.
\<close>

theorem play_outside_voice_creates_nothing:
  assumes "isCommand i" "guildId i = Some g" "g \<noteq> []" "commandName i = ''play''"
    "subscriptions w g = None"
  shows "(voiceChannel i = None \<longrightarrow>
           interactionCreate env i w =
             (w, [DeferReply (ident i),
                  FollowUp (ident i) ''Join a voice channel and then try that again!'' False]))
       \<and> (\<forall>c. voiceChannel i = Some c \<longrightarrow>
             subscriptions (fst (interactionCreate env i w)) = (subscriptions w)(g \<mapsto> nextRef w)
           \<and> nextRef (fst (interactionCreate env i w)) = Suc (nextRef w)
           \<and> JoinVoiceChannel c (nextRef w) \<in> set (snd (interactionCreate env i w)))"
  using assms
  apply (simp add: interactionCreate_def handler_play advance_simps afterDeferReply_def)
  apply (auto simp: advance_simps play_defs split: option.splits list.splits prod.splits)
  done

theorem play_outside_voice_creates_nothing_witness:
  "voiceChannel ((command ''play'' ''song a'')\<lparr>voiceChannel := None\<rparr>) = None
   \<and> subscriptions emptyWorld ''guild'' = None
   \<and> interactionCreate sampleEnv ((command ''play'' ''song a'')\<lparr>voiceChannel := None\<rparr>) emptyWorld
       = (emptyWorld,
          [DeferReply 7, FollowUp 7 ''Join a voice channel and then try that again!'' False])
   \<and> voiceChannel (command ''play'' ''song a'') = Some ''lounge''
   \<and> subscriptions (fst (interactionCreate sampleEnv (command ''play'' ''song a'') emptyWorld))
        ''guild'' = Some 0"
  using play_outside_voice_creates_nothing
      [of "(command ''play'' ''song a'')\<lparr>voiceChannel := None\<rparr>" "''guild''" emptyWorld sampleEnv]
    play_outside_voice_creates_nothing
      [of "command ''play'' ''song a''" "''guild''" emptyWorld sampleEnv]
  by (simp add: command_def emptyWorld_def)

subsection \<open>C2: the wait for the connection times out\<close>

text \<open>
  C2. A play command whose wait for Ready (bound: 20000 ms) fails. The requester gets the
  follow-up "Failed to join voice channel within 20 seconds, please try again later!" and
  the handler returns. For a guild that had a session, the world is as before: the
  subscription is still in the table and its connection, player and queue are untouched.
  For a guild whose session this request has just created, the subscription stays in the
  table with its connection as the join left it (nothing destroys it), so a later request
  finds it there.
\<close>

theorem join_timeout_keeps_session:
  assumes "isCommand i" "guildId i = Some g" "g \<noteq> []" "commandName i = ''play''"
  shows "(\<forall>r. subscriptions w g = Some r \<longrightarrow> entersState env (heap w r) = None \<longrightarrow>
            interactionCreate env i w =
              (w, [DeferReply (ident i), EntersState r Ready 20000 False, ConsoleWarn,
                   FollowUp (ident i)
                     ''Failed to join voice channel within 20 seconds, please try again later!''
                     False]))
       \<and> (\<forall>c. subscriptions w g = None \<longrightarrow> voiceChannel i = Some c \<longrightarrow> \<not> becomesReady env \<longrightarrow>
            subscriptions (fst (interactionCreate env i w)) = (subscriptions w)(g \<mapsto> nextRef w)
          \<and> heap (fst (interactionCreate env i w)) = (heap w)(nextRef w := newSubscription)
          \<and> snd (interactionCreate env i w) =
               [DeferReply (ident i), JoinVoiceChannel c (nextRef w),
                EntersState (nextRef w) Ready 20000 False, ConsoleWarn,
                FollowUp (ident i)
                  ''Failed to join voice channel within 20 seconds, please try again later!''
                  False])"
  using assms
  by (auto simp: interactionCreate_def handler_play advance_simps play_defs
      entersState_def newSubscription_def)

theorem join_timeout_keeps_session_witness:
  "subscriptions stuckWorld ''guild'' = Some 0
   \<and> entersState slowEnv (heap stuckWorld 0) = None
   \<and> interactionCreate slowEnv (command ''play'' ''song a'') stuckWorld =
       (stuckWorld,
        [DeferReply 7, EntersState 0 Ready 20000 False, ConsoleWarn,
         FollowUp 7 ''Failed to join voice channel within 20 seconds, please try again later!''
           False])
   \<and> subscriptions emptyWorld ''guild'' = None
   \<and> \<not> becomesReady slowEnv
   \<and> subscriptions (fst (interactionCreate slowEnv (command ''play'' ''song a'') emptyWorld))
       ''guild'' = Some 0
   \<and> voiceConnection
       (heap (fst (interactionCreate slowEnv (command ''play'' ''song a'') emptyWorld)) 0)
       = Signalling"
  using join_timeout_keeps_session
      [of "command ''play'' ''song a''" "''guild''" stuckWorld slowEnv]
    join_timeout_keeps_session
      [of "command ''play'' ''song a''" "''guild''" emptyWorld slowEnv]
  by (simp add: sample_defs entersState_def)

subsection \<open>C3: the resolution of the request fails\<close>

text \<open>
  C3. A play command whose connection is ready (or gets ready within the bound) and whose
  resolution fails: no video is found, or the search or \<^verbatim>\<open>Track.from\<close> throws. The
  requester gets the follow-up "Failed to play track, please try again later!" and
  nothing is enqueued. For a guild that had a session \<open>r\<close>, the only thing that may differ
  afterwards is that the connection of \<open>r\<close> has become ready while the handler waited for
  it (\<open>s\<close> is the subscription after the wait); the table, the queue and the player are as
  before, and when the connection was ready already the whole world is as before. For a
  session that this request has created, the subscription is in the table, with an empty
  queue and an idle player.
\<close>

theorem failed_resolution_leaves_session:
  assumes "isCommand i" "guildId i = Some g" "g \<noteq> []" "commandName i = ''play''"
    "resolutionFails env (song i)"
  shows "(\<forall>r s. subscriptions w g = Some r \<longrightarrow> entersState env (heap w r) = Some s \<longrightarrow>
            fst (interactionCreate env i w) = w\<lparr>heap := (heap w)(r := s)\<rparr>
          \<and> queue s = queue (heap w r) \<and> audioPlayer s = audioPlayer (heap w r)
          \<and> (voiceConnection (heap w r) = Ready \<longrightarrow> fst (interactionCreate env i w) = w)
          \<and> (\<exists>pre. snd (interactionCreate env i w) =
                pre @ [ConsoleWarn,
                       FollowUp (ident i) ''Failed to play track, please try again later!''
                         False])
          \<and> (\<forall>r' t. Enqueue r' t \<notin> set (snd (interactionCreate env i w))))
       \<and> (\<forall>c. subscriptions w g = None \<longrightarrow> voiceChannel i = Some c \<longrightarrow> becomesReady env \<longrightarrow>
            subscriptions (fst (interactionCreate env i w)) = (subscriptions w)(g \<mapsto> nextRef w)
          \<and> heap (fst (interactionCreate env i w)) =
              (heap w)(nextRef w := newSubscription\<lparr>voiceConnection := Ready\<rparr>)
          \<and> (\<exists>pre. snd (interactionCreate env i w) =
                pre @ [ConsoleWarn,
                       FollowUp (ident i) ''Failed to play track, please try again later!''
                         False])
          \<and> (\<forall>r' t. Enqueue r' t \<notin> set (snd (interactionCreate env i w))))"
  using assms
  by (auto simp: interactionCreate_def handler_play advance_simps play_defs
      resolutionFails_def entersState_def newSubscription_def
      split: option.splits list.splits if_splits)

theorem failed_resolution_leaves_session_witness:
  "resolutionFails sampleEnv (song (command ''play'' ''song x''))
   \<and> subscriptions busyWorld ''guild'' = Some 0
   \<and> entersState sampleEnv (heap busyWorld 0) = Some (heap busyWorld 0)
   \<and> voiceConnection (heap busyWorld 0) = Ready
   \<and> fst (interactionCreate sampleEnv (command ''play'' ''song x'') busyWorld) = busyWorld
   \<and> Enqueue 0 trackB
        \<notin> set (snd (interactionCreate sampleEnv (command ''play'' ''song x'') busyWorld))
   \<and> subscriptions emptyWorld ''guild'' = None
   \<and> becomesReady sampleEnv
   \<and> subscriptions (fst (interactionCreate sampleEnv (command ''play'' ''song x'') emptyWorld))
       = (subscriptions emptyWorld)(''guild'' \<mapsto> nextRef emptyWorld)
   \<and> Enqueue 0 trackB
        \<notin> set (snd (interactionCreate sampleEnv (command ''play'' ''song x'') emptyWorld))"
proof -
  let ?i = "command ''play'' ''song x''"
  have c: "isCommand ?i" "guildId ?i = Some ''guild''" "''guild'' \<noteq> []"
    "commandName ?i = ''play''" "voiceChannel ?i = Some ''lounge''"
    by (simp_all add: command_def)
  have f: "resolutionFails sampleEnv (song ?i)"
    by (simp add: resolutionFails_def sampleEnv_def command_def)
  have b1: "subscriptions busyWorld ''guild'' = Some 0" by (simp add: busyWorld_def)
  have b2: "voiceConnection (heap busyWorld 0) = Ready" by (simp add: busyWorld_def)
  have b3: "entersState sampleEnv (heap busyWorld 0) = Some (heap busyWorld 0)"
    using b2 by (simp add: entersState_def)
  have e1: "subscriptions emptyWorld ''guild'' = None" by (simp add: emptyWorld_def)
  have e2: "becomesReady sampleEnv" by (simp add: sampleEnv_def)
  note busy = failed_resolution_leaves_session
    [OF c(1-4) f, of busyWorld, THEN conjunct1, rule_format, OF b1 b3]
  note fresh = failed_resolution_leaves_session
    [OF c(1-4) f, of emptyWorld, THEN conjunct2, rule_format, OF e1 c(5) e2]
  from busy b2 have "fst (interactionCreate sampleEnv ?i busyWorld) = busyWorld" by blast
  moreover from busy
  have "Enqueue 0 trackB \<notin> set (snd (interactionCreate sampleEnv ?i busyWorld))" by blast
  moreover from fresh
  have "subscriptions (fst (interactionCreate sampleEnv ?i emptyWorld))
       = (subscriptions emptyWorld)(''guild'' \<mapsto> nextRef emptyWorld)" by blast
  moreover from fresh
  have "Enqueue 0 trackB \<notin> set (snd (interactionCreate sampleEnv ?i emptyWorld))" by blast
  ultimately show ?thesis using f b1 b2 b3 e1 e2 by blast
qed

subsection \<open>C4: leave\<close>



subsection \<open>C7: skip\<close>

text \<open>
  C7. A skip command in a guild with a session \<open>r\<close> does to the world what \<open>stop\<close> does to
  the subscription \<open>r\<close>, and nothing else; what it sends is what \<open>stop\<close> triggers, then the
  reply "Skipped song!". When the player is idle, \<open>stop\<close> causes no transition, and the
  world, the queue included, is as before, also when tracks are waiting: the handler
  itself takes nothing from the queue. When the player is not idle, the queue changes as
  the reaction to the transition to Idle changes it.
\<close>

theorem skip_is_stop:
  assumes "isCommand i" "guildId i = Some g" "g \<noteq> []" "commandName i = ''skip''"
    "subscriptions w g = Some r"
  shows "interactionCreate env i w =
           (w\<lparr>heap := (heap w)(r := fst (stop (heap w r)))\<rparr>,
            snd (stop (heap w r)) @ [Reply (ident i) ''Skipped song!'' False])
       \<and> (status (audioPlayer (heap w r)) = Idle \<longrightarrow> fst (interactionCreate env i w) = w)
       \<and> (status (audioPlayer (heap w r)) \<noteq> Idle \<longrightarrow>
            stop (heap w r) = onIdle ((heap w r)\<lparr>audioPlayer := IdleState\<rparr>))"
  using assms
  by (auto simp: interactionCreate_def handler_def advance_Entry advance_Finished entry_def
      skipCommand_def stop_def split: prod.splits)

theorem skip_is_stop_witness:
  "subscriptions busyWorld ''guild'' = Some 0
   \<and> status (audioPlayer (heap busyWorld 0)) \<noteq> Idle
   \<and> interactionCreate sampleEnv (command ''skip'' []) busyWorld =
       (busyWorld\<lparr>heap := (heap busyWorld)
          (0 := \<lparr>voiceConnection = Ready, audioPlayer = PlayingState trackC, queue = [trackD]\<rparr>)\<rparr>,
        [Invoked OnStart trackC, FollowUp 4 ''Now playing!'' True,
         Reply 7 ''Skipped song!'' False])
   \<and> subscriptions (busyWorld\<lparr>heap := (heap busyWorld)(0 := newSubscription\<lparr>queue := [trackD]\<rparr>)\<rparr>)
        ''guild'' = Some 0
   \<and> fst (interactionCreate sampleEnv (command ''skip'' [])
        (busyWorld\<lparr>heap := (heap busyWorld)(0 := newSubscription\<lparr>queue := [trackD]\<rparr>)\<rparr>))
       = busyWorld\<lparr>heap := (heap busyWorld)(0 := newSubscription\<lparr>queue := [trackD]\<rparr>)\<rparr>"
proof -
  let ?i = "command ''skip'' []"
  let ?w = "busyWorld\<lparr>heap := (heap busyWorld)(0 := newSubscription\<lparr>queue := [trackD]\<rparr>)\<rparr>"
  have c: "isCommand ?i" "guildId ?i = Some ''guild''" "''guild'' \<noteq> []"
    "commandName ?i = ''skip''" "ident ?i = 7"
    by (simp_all add: command_def)
  have b: "subscriptions busyWorld ''guild'' = Some 0"
    "status (audioPlayer (heap busyWorld 0)) \<noteq> Idle"
    by (simp_all add: busyWorld_def)
  have s: "stop (heap busyWorld 0) =
      (\<lparr>voiceConnection = Ready, audioPlayer = PlayingState trackC, queue = [trackD]\<rparr>,
       [Invoked OnStart trackC, FollowUp 4 ''Now playing!'' True])"
    by (simp add: busyWorld_def stop_def onIdle_def play_def onStart_def trackC_def)
  have i: "subscriptions ?w ''guild'' = Some 0" "status (audioPlayer (heap ?w 0)) = Idle"
    by (simp_all add: busyWorld_def newSubscription_def)
  note T1 = skip_is_stop [OF c(1-4) b(1), of sampleEnv, THEN conjunct1]
  note T2 = skip_is_stop [OF c(1-4) i(1), of sampleEnv, THEN conjunct2, THEN conjunct1,
      rule_format, OF i(2)]
  from T1 T2 s b i(1) c(5) show ?thesis by simp
qed

subsection \<open>C8: the queue command\<close>

lemma length_queueLines: "length (queueLines q) = min 5 (length q)"
  by (simp add: queueLines_def)

lemma nth_queueLines:
  "k < length (queueLines q) \<Longrightarrow> queueLines q ! k = showNat (k + 1) @ '') '' @ title (q ! k)"
  by (simp add: queueLines_def)

lemma current_status:
  "(status p = Idle \<longrightarrow> current p = ''Nothing is currently playing!'')
   \<and> (status p \<noteq> Idle \<longrightarrow>
        (\<exists>t. resource p = Some t \<and> current p = ''Playing **'' @ title t @ ''**''))"
  by (cases p) (simp_all add: current_def)

text \<open>
  C8. A queue command in a guild with a session \<open>r\<close> leaves the world as it is and sends
  one reply: a line about the current track, an empty line, and one line for each of the
  first five tracks of the queue at most, numbered from 1, in the order of the queue. The
  first line is "Nothing is currently playing!" when the player is idle and otherwise
  "Playing **T**" for the title T of the player's resource.
\<close>

theorem queue_command_lists_five:
  assumes "isCommand i" "guildId i = Some g" "g \<noteq> []" "commandName i = ''queue''"
    "subscriptions w g = Some r"
  shows "interactionCreate env i w =
           (w, [Reply (ident i)
                  (current (audioPlayer (heap w r)) @ [CHR 0x0A, CHR 0x0A]
                     @ joinLines (queueLines (queue (heap w r)))) False])
       \<and> length (queueLines (queue (heap w r))) = min 5 (length (queue (heap w r)))
       \<and> (\<forall>k < length (queueLines (queue (heap w r))).
            queueLines (queue (heap w r)) ! k
              = showNat (k + 1) @ '') '' @ title (queue (heap w r) ! k))
       \<and> (status (audioPlayer (heap w r)) = Idle \<longrightarrow>
            current (audioPlayer (heap w r)) = ''Nothing is currently playing!'')
       \<and> (status (audioPlayer (heap w r)) \<noteq> Idle \<longrightarrow>
            (\<exists>t. resource (audioPlayer (heap w r)) = Some t
               \<and> current (audioPlayer (heap w r)) = ''Playing **'' @ title t @ ''**''))"
proof -
  have run: "interactionCreate env i w =
           (w, [Reply (ident i)
                  (current (audioPlayer (heap w r)) @ [CHR 0x0A, CHR 0x0A]
                     @ joinLines (queueLines (queue (heap w r)))) False])"
    using assms
    by (simp add: interactionCreate_def handler_def advance_Entry advance_Finished entry_def
        queueCommand_def)
  show ?thesis
    using run current_status [of "audioPlayer (heap w r)"] length_queueLines nth_queueLines
    by blast
qed

theorem queue_command_lists_five_witness:
  "subscriptions crowdedWorld ''guild'' = Some 0
   \<and> length (queue (heap crowdedWorld 0)) = 7
   \<and> interactionCreate sampleEnv (command ''queue'' []) crowdedWorld =
       (crowdedWorld,
        [Reply 7 ''Playing **Song B**\<newline>\<newline>1) Song 1\<newline>2) Song 2\<newline>3) Song 3\<newline>4) Song 4\<newline>5) Song 5''
           False])
   \<and> subscriptions emptyWorld ''guild'' = None
   \<and> status (audioPlayer (heap (emptyWorld\<lparr>subscriptions := [''guild'' \<mapsto> 0]\<rparr>) 0)) = Idle
   \<and> interactionCreate sampleEnv (command ''queue'' [])
        (emptyWorld\<lparr>subscriptions := [''guild'' \<mapsto> 0]\<rparr>) =
       (emptyWorld\<lparr>subscriptions := [''guild'' \<mapsto> 0]\<rparr>,
        [Reply 7 ''Nothing is currently playing!\<newline>\<newline>'' False])"
proof -
  let ?i = "command ''queue'' []"
  let ?w = "emptyWorld\<lparr>subscriptions := [''guild'' \<mapsto> 0]\<rparr>"
  have c: "isCommand ?i" "guildId ?i = Some ''guild''" "''guild'' \<noteq> []"
    "commandName ?i = ''queue''" "ident ?i = 7"
    by (simp_all add: command_def)
  have b: "subscriptions crowdedWorld ''guild'' = Some 0"
    "length (queue (heap crowdedWorld 0)) = 7"
    by (simp_all add: crowdedWorld_def busyWorld_def)
  have p: "audioPlayer (heap crowdedWorld 0) = PlayingState trackB"
    "queue (heap crowdedWorld 0) = map numbered [1 ..< 8]"
    by (simp_all add: crowdedWorld_def busyWorld_def)
  have shown: "current (PlayingState trackB) @ [CHR 0x0A, CHR 0x0A]
      @ joinLines (queueLines (map numbered [1 ..< 8]))
    = ''Playing **Song B**\<newline>\<newline>1) Song 1\<newline>2) Song 2\<newline>3) Song 3\<newline>4) Song 4\<newline>5) Song 5''"
    by code_simp
  have e: "subscriptions ?w ''guild'' = Some 0" "subscriptions emptyWorld ''guild'' = None"
    "status (audioPlayer (heap ?w 0)) = Idle" "queue (heap ?w 0) = []"
    by (simp_all add: emptyWorld_def newSubscription_def)
  note T1 = queue_command_lists_five [OF c(1-4) b(1), of sampleEnv, THEN conjunct1]
  note T2 = queue_command_lists_five [OF c(1-4) e(1), of sampleEnv]
  from T2 e(3) have "current (audioPlayer (heap ?w 0)) = ''Nothing is currently playing!''"
    by blast
  with T2 e(4)
  have idle: "interactionCreate sampleEnv ?i ?w
      = (?w, [Reply 7 ''Nothing is currently playing!\<newline>\<newline>'' False])"
    by (simp add: queueLines_def c(5))
  from T1 p shown c(5)
  have "interactionCreate sampleEnv ?i crowdedWorld =
       (crowdedWorld,
        [Reply 7 ''Playing **Song B**\<newline>\<newline>1) Song 1\<newline>2) Song 2\<newline>3) Song 3\<newline>4) Song 4\<newline>5) Song 5''
           False])"
    by simp
  with idle b e show ?thesis by simp
qed

subsection \<open>C5: nothing is resolved or enqueued before the connection is ready\<close>

lemma gate_not_Waiting:
  "gate s es \<Longrightarrow> s \<noteq> Waiting \<Longrightarrow>
   (\<forall>r st b ok. EntersState r st b ok \<notin> set es) \<and> (\<forall>c r. JoinVoiceChannel c r \<notin> set es)"
  by (induction s es rule: gate.induct) auto

lemma gate_Closed:
  "gate Closed es \<Longrightarrow>
   (\<forall>r t. Enqueue r t \<notin> set es) \<and> (\<forall>u. TrackFrom u \<notin> set es) \<and> (\<forall>q. Search q \<notin> set es)"
  by (induction "Closed" es rule: gate.induct) auto

lemma gate_failed:
  "gate Waiting es \<Longrightarrow> EntersState r st b False \<in> set es \<Longrightarrow>
   (\<forall>r t. Enqueue r t \<notin> set es) \<and> (\<forall>u. TrackFrom u \<notin> set es) \<and> (\<forall>q. Search q \<notin> set es)"
proof (induction "Waiting" es rule: gate.induct)
  case (3 r' st' b' ok' es)
  show ?case
  proof (cases "st' = Ready \<and> b' = 20000 \<and> ok'")
    case True
    with 3 have "gate (Open r') es" by simp
    from gate_not_Waiting [OF this] have "EntersState r st b False \<notin> set es" by simp
    with 3 True show ?thesis by auto
  next
    case False
    with 3 have "gate Closed es" by auto
    from gate_Closed [OF this] show ?thesis by simp
  qed
qed auto

lemma gate_Enqueue:
  "gate s (pre @ Enqueue r t # post) \<Longrightarrow>
   s = Open r \<or> EntersState r Ready 20000 True \<in> set pre"
  by (induction s pre rule: gate.induct) (auto split: if_splits)

lemma gate_TrackFrom:
  "gate s (pre @ TrackFrom u # post) \<Longrightarrow>
   (\<exists>r. s = Open r) \<or> (\<exists>r. EntersState r Ready 20000 True \<in> set pre)"
  by (induction s pre rule: gate.induct) (auto split: if_splits)

lemma gate_Search:
  "gate s (pre @ Search q # post) \<Longrightarrow>
   (\<exists>r. s = Open r) \<or> (\<exists>r. EntersState r Ready 20000 True \<in> set pre)"
  by (induction s pre rule: gate.induct) (auto split: if_splits)

lemma gate_suffix: "gate s (pre @ e # post) \<Longrightarrow> \<exists>s'. gate s' (e # post)"
  by (induction s pre rule: gate.induct) (auto split: if_splits)

lemma gate_Join:
  assumes "gate s (pre @ EntersState r st b ok # post)"
  shows "JoinVoiceChannel c r' \<notin> set post"
proof -
  from gate_suffix [OF assms] obtain s' where "gate s' (EntersState r st b ok # post)" ..
  then obtain s'' where "s'' \<noteq> Waiting" "gate s'' post" by (auto split: if_splits)
  with gate_not_Waiting show ?thesis by blast
qed

text \<open>The trace of every play command is accepted by the monitor.\<close>

lemma play_gate:
  assumes "isCommand i" "guildId i = Some g" "g \<noteq> []" "commandName i = ''play''"
  shows "gate Waiting (snd (interactionCreate env i w))"
  using assms
  by (auto simp: interactionCreate_def handler_play advance_simps play_defs
      enqueue_def onIdle_def play_def onStart_def
      split: option.splits list.splits if_splits prod.splits)

text \<open>
  C5. In the trace of a play command: before a track is enqueued on \<open>r\<close>, the wait for
  Ready on \<open>r\<close> with the bound of 20000 ms has succeeded; before the search and before
  \<^verbatim>\<open>Track.from\<close> are called, such a wait has succeeded; joining a voice channel never
  comes after the wait; and when the wait has failed, the trace has no search, no
  \<^verbatim>\<open>Track.from\<close> and no enqueueing at all.
\<close>

theorem enqueue_only_after_ready:
  assumes "isCommand i" "guildId i = Some g" "g \<noteq> []" "commandName i = ''play''"
  shows "(\<forall>pre r t post. snd (interactionCreate env i w) = pre @ Enqueue r t # post \<longrightarrow>
            EntersState r Ready 20000 True \<in> set pre)
       \<and> (\<forall>pre u post. snd (interactionCreate env i w) = pre @ TrackFrom u # post \<longrightarrow>
            (\<exists>r. EntersState r Ready 20000 True \<in> set pre))
       \<and> (\<forall>pre q post. snd (interactionCreate env i w) = pre @ Search q # post \<longrightarrow>
            (\<exists>r. EntersState r Ready 20000 True \<in> set pre))
       \<and> (\<forall>pre r st b ok post.
            snd (interactionCreate env i w) = pre @ EntersState r st b ok # post \<longrightarrow>
            (\<forall>c r'. JoinVoiceChannel c r' \<notin> set post))
       \<and> (\<forall>r st b. EntersState r st b False \<in> set (snd (interactionCreate env i w)) \<longrightarrow>
            (\<forall>r' t. Enqueue r' t \<notin> set (snd (interactionCreate env i w)))
          \<and> (\<forall>u. TrackFrom u \<notin> set (snd (interactionCreate env i w)))
          \<and> (\<forall>q. Search q \<notin> set (snd (interactionCreate env i w))))"
proof -
  let ?tr = "snd (interactionCreate env i w)"
  have g: "gate Waiting ?tr" using assms by (rule play_gate)
  have 1: "EntersState r Ready 20000 True \<in> set pre" if "?tr = pre @ Enqueue r t # post"
    for pre r t post
    using gate_Enqueue [of Waiting pre r t post] g that by simp
  have 2: "\<exists>r. EntersState r Ready 20000 True \<in> set pre" if "?tr = pre @ TrackFrom u # post"
    for pre u post
    using gate_TrackFrom [of Waiting pre u post] g that by simp
  have 3: "\<exists>r. EntersState r Ready 20000 True \<in> set pre" if "?tr = pre @ Search q # post"
    for pre q post
    using gate_Search [of Waiting pre q post] g that by simp
  have 4: "JoinVoiceChannel c r' \<notin> set post" if "?tr = pre @ EntersState r st b ok # post"
    for pre r st b ok post c r'
    using gate_Join [of Waiting pre r st b ok post] g that by simp
  have 5: "(\<forall>r' t. Enqueue r' t \<notin> set ?tr) \<and> (\<forall>u. TrackFrom u \<notin> set ?tr)
         \<and> (\<forall>q. Search q \<notin> set ?tr)" if "EntersState r st b False \<in> set ?tr" for r st b
    using gate_failed [OF g that] .
  from 1 2 3 4 5 show ?thesis by blast
qed

theorem enqueue_only_after_ready_witness:
  "snd (interactionCreate sampleEnv (command ''play'' ''song a'') emptyWorld) =
     [DeferReply 7, JoinVoiceChannel ''lounge'' 0, EntersState 0 Ready 20000 True,
      Search ''song a'', TrackFrom ''https://youtu.be/a'']
     @ Enqueue 0 \<lparr>title = ''Song A'', url = ''https://youtu.be/a'', requester = 7\<rparr>
     # [Invoked OnStart \<lparr>title = ''Song A'', url = ''https://youtu.be/a'', requester = 7\<rparr>,
        FollowUp 7 ''Now playing!'' True, FollowUp 7 ''Enqueued **Song A**'' False]
   \<and> EntersState 0 Ready 20000 True
       \<in> set [DeferReply 7, JoinVoiceChannel ''lounge'' 0, EntersState 0 Ready 20000 True,
               Search ''song a'', TrackFrom ''https://youtu.be/a'']
   \<and> EntersState 0 Ready 20000 False
       \<in> set (snd (interactionCreate slowEnv (command ''play'' ''song a'') stuckWorld))
   \<and> Enqueue 0 trackB
       \<notin> set (snd (interactionCreate slowEnv (command ''play'' ''song a'') stuckWorld))"
proof -
  let ?i = "command ''play'' ''song a''"
  have c: "isCommand ?i" "guildId ?i = Some ''guild''" "''guild'' \<noteq> []"
    "commandName ?i = ''play''"
    by (simp_all add: command_def)
  have ok: "snd (interactionCreate sampleEnv ?i emptyWorld) =
     [DeferReply 7, JoinVoiceChannel ''lounge'' 0, EntersState 0 Ready 20000 True,
      Search ''song a'', TrackFrom ''https://youtu.be/a'']
     @ Enqueue 0 \<lparr>title = ''Song A'', url = ''https://youtu.be/a'', requester = 7\<rparr>
     # [Invoked OnStart \<lparr>title = ''Song A'', url = ''https://youtu.be/a'', requester = 7\<rparr>,
        FollowUp 7 ''Now playing!'' True, FollowUp 7 ''Enqueued **Song A**'' False]"
    by (simp add: eval_defs)
  have late: "EntersState 0 Ready 20000 False
       \<in> set (snd (interactionCreate slowEnv ?i stuckWorld))"
    by (simp add: eval_defs)
  note T1 = enqueue_only_after_ready [OF c, of sampleEnv emptyWorld, THEN conjunct1,
      rule_format, OF ok]
  note T2 = enqueue_only_after_ready [OF c, of slowEnv stuckWorld, THEN conjunct2,
      THEN conjunct2, THEN conjunct2, THEN conjunct2, rule_format, OF late]
  from T2 have "Enqueue 0 trackB \<notin> set (snd (interactionCreate slowEnv ?i stuckWorld))"
    by blast
  with ok late T1 show ?thesis by blast
qed

subsection \<open>C1: two play commands at the same time\<close>

text \<open>
  C1. The claim: when two play commands for a guild without a session overlap, one
  subscription is constructed and both handlers hold it. The handler reads the table in
  line 101, before the await of line 104, and tests what it has read in line 111, after
  that await. Two handlers that both pass line 101 before either is resumed both see no
  subscription, and both construct one: the table ends with the second, and the first
  handler goes on with an object that is not in the table. When the second command
  arrives after the first handler has passed line 125, one subscription is constructed
  and both hold it.
\<close>

theorem race_creates_two_sessions:
  "tasks (exec sampleEnv [Arrive playA, Arrive playB, Resume 0, Resume 1] idle)
     = [AtEntersState playA 0 ''song a'', AtEntersState playB 1 ''song a'']
   \<and> trace (exec sampleEnv [Arrive playA, Arrive playB, Resume 0, Resume 1] idle)
     = [DeferReply 1, DeferReply 2, JoinVoiceChannel ''lounge'' 0, JoinVoiceChannel ''lounge'' 1]
   \<and> nextRef (world (exec sampleEnv [Arrive playA, Arrive playB, Resume 0, Resume 1] idle)) = 2
   \<and> subscriptions (world (exec sampleEnv [Arrive playA, Arrive playB, Resume 0, Resume 1] idle))
       ''guild'' = Some 1
   \<and> tasks (exec sampleEnv [Arrive playA, Resume 0, Arrive playB, Resume 1] idle)
     = [AtEntersState playA 0 ''song a'', AtEntersState playB 0 ''song a'']
   \<and> nextRef (world (exec sampleEnv [Arrive playA, Resume 0, Arrive playB, Resume 1] idle)) = 1"
  by (simp add: exec_def idle_def playA_def playB_def command_def emptyWorld_def entry_def
      afterDeferReply_def Let_def)

end
